theory Spec2Isabelle
  imports Complex_Main "HOL-Library.Multiset"
begin

section \<open>Multi-objective contextual bandits: a model of misc.py and MOCB.py\<close>

text \<open>
  The program computes with numpy arrays of float64. A one-dimensional array is modelled
  as a list of reals (its shape is the length of the list), and the arithmetic is that of
  the real numbers: rounding, overflow and underflow of float64 are not part of the model.
  Where the program produces a value that is no real number (a division by zero gives
  inf or nan in numpy, with a warning and no exception) the model says so explicitly.
  Exceptions are values of the type \<open>error\<close>.
\<close>

type_synonym vec = "real list"

text \<open>
  The exceptions of Python and numpy that the program can raise. \<open>NonFinite\<close> is no
  exception: it marks a computation whose arrays left the real numbers (numpy divides by
  zero with a warning and goes on with inf or nan), where the model stops.
\<close>

datatype error =
  ValueError | UnboundLocalError | ZeroDivisionError | IndexError | KeyError | LinAlgError
  | NonFinite

fun bind_err :: "error + 'a \<Rightarrow> ('a \<Rightarrow> error + 'b) \<Rightarrow> error + 'b" where
  "bind_err (Inl e) f = Inl e"
| "bind_err (Inr x) f = f x"

subsection \<open>misc.py: projection onto the simplex by bisection\<close>

text \<open>
  \<^verbatim>\<open>func = lambda x: np.sum(np.maximum(v - x, 0)) - z\<close>
\<close>

definition func :: "vec \<Rightarrow> real \<Rightarrow> real \<Rightarrow> real" where
  "func v z x = sum_list (map (\<lambda>a. max (a - x) 0) v) - z"

text \<open>
  The variables of the loop. \<open>midpoint\<close> is unbound before the first iteration, and
  \<open>iters\<close> counts the loop bodies that were executed.
\<close>

record bisection_state =
  lower :: real
  upper :: real
  midpoint :: "real option"
  iters :: nat

text \<open>
  \<^verbatim>\<open>
  for it in range(max_iter):
      midpoint = (upper + lower) / 2.0
      value = func(midpoint)
      if abs(value) <= tau:
          break
      if value <= 0:
          upper = midpoint
      else:
          lower = midpoint
  \<close>
  The first argument is the number of iterations that remain.
\<close>

fun bisection_loop :: "nat \<Rightarrow> vec \<Rightarrow> real \<Rightarrow> real \<Rightarrow> bisection_state \<Rightarrow> bisection_state" where
  "bisection_loop 0 v z tau s = s"
| "bisection_loop (Suc n) v z tau s =
     (let m = (upper s + lower s) / 2;
          val = func v z m;
          s' = s\<lparr>midpoint := Some m, iters := Suc (iters s)\<rparr>
      in if \<bar>val\<bar> \<le> tau then s'
         else if val \<le> 0 then bisection_loop n v z tau (s'\<lparr>upper := m\<rparr>)
         else bisection_loop n v z tau (s'\<lparr>lower := m\<rparr>))"

text \<open>
  The state before the loop: \<^verbatim>\<open>lower = np.min(v) - z / len(v)\<close>, \<^verbatim>\<open>upper = np.max(v)\<close>.
\<close>

definition bisection_init :: "vec \<Rightarrow> real \<Rightarrow> bisection_state" where
  "bisection_init v z =
     \<lparr>lower = Min (set v) - z / real (length v), upper = Max (set v),
      midpoint = None, iters = 0\<rparr>"

text \<open>
  \<^verbatim>\<open>def projection_simplex_bisection(v, z=1, tau=1e-6, max_iter=1000)\<close>.
  \<open>np.min\<close> of an empty array raises ValueError; \<open>range(max_iter)\<close> is empty for
  \<open>max_iter \<le> 0\<close>, and then the \<open>return\<close> reads the unbound \<open>midpoint\<close>.
\<close>

definition projection_simplex_bisection :: "vec \<Rightarrow> real \<Rightarrow> real \<Rightarrow> int \<Rightarrow> error + vec" where
  "projection_simplex_bisection v z tau max_iter =
     (if v = [] then Inl ValueError
      else case midpoint (bisection_loop (nat max_iter) v z tau (bisection_init v z)) of
             None \<Rightarrow> Inl UnboundLocalError
           | Some m \<Rightarrow> Inr (map (\<lambda>a. max (a - m) 0) v))"


subsection \<open>Arrays\<close>

text \<open>
  A two-dimensional array carries its shape and its rows. The shape is kept apart from the
  rows because an array of shape \<open>(0, d)\<close> has no row to read \<open>d\<close> from.
\<close>

record mat =
  nrows :: nat
  ncols :: nat
  rows :: "vec list"

definition wf_mat :: "mat \<Rightarrow> bool" where
  "wf_mat a \<longleftrightarrow> length (rows a) = nrows a \<and> (\<forall>r\<in>set (rows a). length r = ncols a)"

definition has_shape :: "mat \<Rightarrow> nat \<Rightarrow> nat \<Rightarrow> bool" where
  "has_shape a m d \<longleftrightarrow> wf_mat a \<and> nrows a = m \<and> ncols a = d"

text \<open>The array with entry \<open>f i j\<close> in row \<open>i\<close> and column \<open>j\<close>.\<close>

definition mat_of :: "nat \<Rightarrow> nat \<Rightarrow> (nat \<Rightarrow> nat \<Rightarrow> real) \<Rightarrow> mat" where
  "mat_of m d f = \<lparr>nrows = m, ncols = d, rows = map (\<lambda>i. map (f i) [0..<d]) [0..<m]\<rparr>"

definition entry :: "mat \<Rightarrow> nat \<Rightarrow> nat \<Rightarrow> real" where
  "entry a i j = rows a ! i ! j"

text \<open>\<^verbatim>\<open>a.T\<close>\<close>

definition transpose_mat :: "mat \<Rightarrow> mat" where
  "transpose_mat a = mat_of (ncols a) (nrows a) (\<lambda>j i. entry a i j)"

text \<open>\<^verbatim>\<open>x.dot(y)\<close> on two one-dimensional arrays: the shapes must agree.\<close>

definition inner :: "vec \<Rightarrow> vec \<Rightarrow> real" where
  "inner x y = (\<Sum>(a, b)\<leftarrow>zip x y. a * b)"

definition vdot :: "vec \<Rightarrow> vec \<Rightarrow> error + real" where
  "vdot x y = (if length x = length y then Inr (inner x y) else Inl ValueError)"

text \<open>\<^verbatim>\<open>a.dot(x)\<close>, a two-dimensional array by a one-dimensional one.\<close>

definition mat_vec :: "mat \<Rightarrow> vec \<Rightarrow> error + vec" where
  "mat_vec a x =
     (if length x = ncols a then Inr (map (\<lambda>r. inner r x) (rows a)) else Inl ValueError)"

text \<open>\<^verbatim>\<open>x.dot(a)\<close>, a one-dimensional array by a two-dimensional one.\<close>

definition vec_mat :: "vec \<Rightarrow> mat \<Rightarrow> error + vec" where
  "vec_mat x a =
     (if length x = nrows a then Inr (map (\<lambda>r. inner x r) (rows (transpose_mat a)))
      else Inl ValueError)"

text \<open>\<^verbatim>\<open>a.dot(b)\<close> on two two-dimensional arrays.\<close>

definition mat_mul :: "mat \<Rightarrow> mat \<Rightarrow> error + mat" where
  "mat_mul a b =
     (if ncols a = nrows b
      then Inr (mat_of (nrows a) (ncols b) (\<lambda>i j. inner (rows a ! i) (rows (transpose_mat b) ! j)))
      else Inl ValueError)"

text \<open>
  \<^verbatim>\<open>x += y\<close> on one-dimensional arrays: \<open>y\<close> is broadcast to the shape of \<open>x\<close>
  when it has one element, and no other difference of shapes is accepted.
\<close>

definition iadd :: "vec \<Rightarrow> vec \<Rightarrow> error + vec" where
  "iadd x y =
     (if length y = length x then Inr (map2 (+) x y)
      else if length y = 1 then Inr (map (\<lambda>a. a + hd y) x)
      else Inl ValueError)"

text \<open>
  A binary operation on one-dimensional arrays with numpy's broadcasting: either shape
  may be 1.
\<close>

definition broadcast :: "(real \<Rightarrow> real \<Rightarrow> real) \<Rightarrow> vec \<Rightarrow> vec \<Rightarrow> error + vec" where
  "broadcast f x y =
     (if length x = length y then Inr (map2 f x y)
      else if length y = 1 then Inr (map (\<lambda>a. f a (hd y)) x)
      else if length x = 1 then Inr (map (f (hd x)) y)
      else Inl ValueError)"

text \<open>\<^verbatim>\<open>a += s\<close> for a scalar \<open>s\<close>: the scalar is added to every entry.\<close>

definition mat_add_scalar :: "mat \<Rightarrow> real \<Rightarrow> mat" where
  "mat_add_scalar a s = a\<lparr>rows := map (map (\<lambda>e. e + s)) (rows a)\<rparr>"

text \<open>\<^verbatim>\<open>s * a\<close> for a scalar \<open>s\<close>.\<close>

definition scalar_mat :: "real \<Rightarrow> mat \<Rightarrow> mat" where
  "scalar_mat s a = a\<lparr>rows := map (map (\<lambda>e. s * e)) (rows a)\<rparr>"

text \<open>
  \<^verbatim>\<open>a += b\<close> on two-dimensional arrays of the same shape (the program only adds arrays
  of the shape \<open>(M, D)\<close> to each other).
\<close>

definition mat_iadd :: "mat \<Rightarrow> mat \<Rightarrow> error + mat" where
  "mat_iadd a b =
     (if nrows a = nrows b \<and> ncols a = ncols b
      then Inr (a\<lparr>rows := map2 (map2 (+)) (rows a) (rows b)\<rparr>)
      else Inl ValueError)"

text \<open>\<^verbatim>\<open>np.identity(m)\<close> and \<^verbatim>\<open>np.zeros((m, d))\<close>\<close>

definition identity :: "nat \<Rightarrow> mat" where
  "identity m = mat_of m m (\<lambda>i j. if i = j then 1 else 0)"

definition zeros2 :: "nat \<Rightarrow> nat \<Rightarrow> mat" where
  "zeros2 m d = mat_of m d (\<lambda>i j. 0)"

text \<open>
  \<^verbatim>\<open>x.reshape(m, 1).dot(r.reshape(1, d))\<close>: the outer product; a reshape to another
  number of elements raises ValueError.
\<close>

definition outer :: "nat \<Rightarrow> nat \<Rightarrow> vec \<Rightarrow> vec \<Rightarrow> error + mat" where
  "outer m d x r =
     (if length x = m \<and> length r = d then Inr (mat_of m d (\<lambda>i j. x ! i * r ! j))
      else Inl ValueError)"

text \<open>
  \<^verbatim>\<open>np.argsort(x)\<close>: the indices of \<open>x\<close> in ascending order of their values, equal
  values in the order of their indices. \<^verbatim>\<open>t[order]\<close> reads \<open>t\<close> at these indices and
  raises IndexError when one of them is out of range.
\<close>

definition argsort :: "vec \<Rightarrow> nat list" where
  "argsort x = sort_key (\<lambda>i. x ! i) [0..<length x]"

definition take_indices :: "vec \<Rightarrow> nat list \<Rightarrow> error + vec" where
  "take_indices t order =
     (if \<forall>i\<in>set order. i < length t then Inr (map (\<lambda>i. t ! i) order) else Inl IndexError)"

text \<open>
  \<^verbatim>\<open>np.argmax(x)\<close>: the first index of the largest entry; ValueError on an empty array.
\<close>

definition argmax :: "vec \<Rightarrow> error + nat" where
  "argmax x =
     (if x = [] then Inl ValueError else Inr (length (takeWhile (\<lambda>a. a \<noteq> Max (set x)) x)))"

subsection \<open>MOCB.py: the object and its constructor\<close>

record mocb =
  K :: int
  D :: int
  M :: int
  T :: int
  lam :: real
  eta :: real
  I :: int
  w :: vec

text \<open>
  \<^verbatim>\<open>np.linspace(start, stop, num=num)\<close>: ValueError for a negative \<open>num\<close>, the single
  sample \<open>start\<close> for \<open>num = 1\<close>, and \<open>num\<close> evenly spaced samples otherwise.
\<close>

definition linspace :: "real \<Rightarrow> real \<Rightarrow> int \<Rightarrow> error + vec" where
  "linspace start stop num =
     (if num < 0 then Inl ValueError
      else if num = 1 then Inr [start]
      else Inr (map (\<lambda>i. start + real i * ((stop - start) / real_of_int (num - 1))) [0..<nat num]))"

text \<open>
  \<^verbatim>\<open>def __init__(self, K, D, M, T, lam, eta, I)\<close>: the seven parameters are stored as they
  are, and \<^verbatim>\<open>self.w = np.power(2, np.linspace(0, -D+1, num=D))\<close>.
\<close>

definition MOCB_init :: "int \<Rightarrow> int \<Rightarrow> int \<Rightarrow> int \<Rightarrow> real \<Rightarrow> real \<Rightarrow> int \<Rightarrow> error + mocb" where
  "MOCB_init k d m t l e i =
     bind_err (linspace 0 (real_of_int (- d + 1)) d) (\<lambda>ls.
       Inr \<lparr>K = k, D = d, M = m, T = t, lam = l, eta = e, I = i, w = map (\<lambda>p. 2 powr p) ls\<rparr>)"

subsection \<open>MOCB.py: the generalized Gini index and its gradient\<close>

text \<open>\<^verbatim>\<open>np.zeros(n)\<close>: negative dimensions are not allowed.\<close>

definition zeros :: "int \<Rightarrow> error + vec" where
  "zeros n = (if n < 0 then Inl ValueError else Inr (replicate (nat n) 0))"

text \<open>
  \<^verbatim>\<open>
  for k in range(self.K):
      x += alpha[k] * Theta.T.dot(X[k])
  \<close>
  The dictionary \<open>X\<close> is a map from arms to feature vectors; \<open>alpha[k]\<close> is read first.
\<close>

fun aggregate :: "vec \<Rightarrow> mat \<Rightarrow> (nat \<rightharpoonup> vec) \<Rightarrow> nat list \<Rightarrow> vec \<Rightarrow> error + vec" where
  "aggregate alpha th xs [] x = Inr x"
| "aggregate alpha th xs (k # ks) x =
     (if length alpha \<le> k then Inl IndexError
      else case xs k of
        None \<Rightarrow> Inl KeyError
      | Some xk \<Rightarrow>
          (case mat_vec (transpose_mat th) xk of
            Inl e \<Rightarrow> Inl e
          | Inr y \<Rightarrow>
              (case iadd x (map (\<lambda>a. alpha ! k * a) y) of
                Inl e \<Rightarrow> Inl e
              | Inr x' \<Rightarrow> aggregate alpha th xs ks x')))"

text \<open>
  \<^verbatim>\<open>
  def GGI(self, alpha, Theta, X):
      x = np.zeros(self.D)
      for k in range(self.K):
          x += alpha[k] * Theta.T.dot(X[k])
      return np.sort(x).dot(self.w)
  \<close>
\<close>

definition GGI :: "mocb \<Rightarrow> vec \<Rightarrow> mat \<Rightarrow> (nat \<rightharpoonup> vec) \<Rightarrow> error + real" where
  "GGI self alpha th xs =
     bind_err (zeros (D self)) (\<lambda>x0.
     bind_err (aggregate alpha th xs [0..<nat (K self)] x0) (\<lambda>x.
     vdot (sort x) (w self)))"

text \<open>
  \<^verbatim>\<open>
  for k in range(self.K):
      temp = Theta_hat.T.dot(X[k])
      gradient[k] = self.w.dot(temp[order])
  \<close>
\<close>

fun grad_loop :: "mocb \<Rightarrow> mat \<Rightarrow> (nat \<rightharpoonup> vec) \<Rightarrow> nat list \<Rightarrow> nat list \<Rightarrow> vec \<Rightarrow> error + vec" where
  "grad_loop self th xs order [] g = Inr g"
| "grad_loop self th xs order (k # ks) g =
     (case xs k of
        None \<Rightarrow> Inl KeyError
      | Some xk \<Rightarrow>
          (case mat_vec (transpose_mat th) xk of
            Inl e \<Rightarrow> Inl e
          | Inr temp \<Rightarrow>
              (case take_indices temp order of
                Inl e \<Rightarrow> Inl e
              | Inr tp \<Rightarrow>
                  (case vdot (w self) tp of
                    Inl e \<Rightarrow> Inl e
                  | Inr p \<Rightarrow>
                      if k < length g then grad_loop self th xs order ks (g[k := p])
                      else Inl IndexError))))"

text \<open>
  \<^verbatim>\<open>
  def grad(self, alpha, Theta_hat, X):
      x = np.zeros(self.D)
      for k in range(self.K):
          x += alpha[k] * Theta_hat.T.dot(X[k])
      order = np.argsort(x)
      gradient = np.zeros(self.K)
      for k in range(self.K): ...
      return np.array(gradient)
  \<close>
\<close>

definition grad :: "mocb \<Rightarrow> vec \<Rightarrow> mat \<Rightarrow> (nat \<rightharpoonup> vec) \<Rightarrow> error + vec" where
  "grad self alpha th xs =
     bind_err (zeros (D self)) (\<lambda>x0.
     bind_err (aggregate alpha th xs [0..<nat (K self)] x0) (\<lambda>x.
     bind_err (zeros (K self)) (\<lambda>g0.
     grad_loop self th xs (argsort x) [0..<nat (K self)] g0)))"

subsection \<open>MOCB.py: the two ascent schemes\<close>

text \<open>
  \<^verbatim>\<open>alpha = projection_simplex_bisection(alpha + self.eta * self.grad(alpha, Theta_hat, X))\<close>,
  with the defaults \<open>z = 1\<close>, \<open>tau = 1e-6\<close> and \<open>max_iter = 1000\<close>.
\<close>

definition grad_step :: "mocb \<Rightarrow> mat \<Rightarrow> (nat \<rightharpoonup> vec) \<Rightarrow> vec \<Rightarrow> error + vec" where
  "grad_step self th xs alpha =
     bind_err (grad self alpha th xs) (\<lambda>g.
     bind_err (broadcast (+) alpha (map (\<lambda>a. eta self * a) g)) (\<lambda>v.
     projection_simplex_bisection v 1 (1 / 10 ^ 6) 1000))"

fun grad_loop_descent :: "nat \<Rightarrow> mocb \<Rightarrow> mat \<Rightarrow> (nat \<rightharpoonup> vec) \<Rightarrow> vec \<Rightarrow> error + vec" where
  "grad_loop_descent 0 self th xs alpha = Inr alpha"
| "grad_loop_descent (Suc n) self th xs alpha =
     (case grad_step self th xs alpha of
        Inl e \<Rightarrow> Inl e
      | Inr a \<Rightarrow> grad_loop_descent n self th xs a)"

definition grad_descent :: "mocb \<Rightarrow> vec \<Rightarrow> mat \<Rightarrow> (nat \<rightharpoonup> vec) \<Rightarrow> error + vec" where
  "grad_descent self alpha th xs = grad_loop_descent (nat (I self)) self th xs alpha"

text \<open>
  \<^verbatim>\<open>temp / np.sum(temp)\<close>: a division by zero gives inf or nan entries (none when
  \<open>temp\<close> is empty).
\<close>

definition divide_by_sum :: "vec \<Rightarrow> error + vec" where
  "divide_by_sum temp =
     (if temp \<noteq> [] \<and> sum_list temp = 0 then Inl NonFinite
      else Inr (map (\<lambda>a. a / sum_list temp) temp))"

text \<open>
  \<^verbatim>\<open>
  temp = np.multiply(alpha, np.exp(self.eta * self.grad(alpha, Theta_hat, X)))
  alpha = temp / np.sum(temp)
  \<close>
\<close>

definition mirror_step :: "mocb \<Rightarrow> mat \<Rightarrow> (nat \<rightharpoonup> vec) \<Rightarrow> vec \<Rightarrow> error + vec" where
  "mirror_step self th xs alpha =
     bind_err (grad self alpha th xs) (\<lambda>g.
     bind_err (broadcast (*) alpha (map (\<lambda>a. exp (eta self * a)) g)) (\<lambda>temp.
     divide_by_sum temp))"

text \<open>The loop \<^verbatim>\<open>for i in range(self.I)\<close>; the first argument counts the iterations.\<close>

fun mirror_loop :: "nat \<Rightarrow> mocb \<Rightarrow> mat \<Rightarrow> (nat \<rightharpoonup> vec) \<Rightarrow> vec \<Rightarrow> error + vec" where
  "mirror_loop 0 self th xs alpha = Inr alpha"
| "mirror_loop (Suc n) self th xs alpha =
     (case mirror_step self th xs alpha of
        Inl e \<Rightarrow> Inl e
      | Inr a \<Rightarrow> mirror_loop n self th xs a)"

definition mirror_descent :: "mocb \<Rightarrow> vec \<Rightarrow> mat \<Rightarrow> (nat \<rightharpoonup> vec) \<Rightarrow> error + vec" where
  "mirror_descent self alpha th xs = mirror_loop (nat (I self)) self th xs alpha"

subsection \<open>MOCB.py: the bandit loop\<close>

text \<open>
  What \<open>gaussian_test\<close> takes from outside the program: the matrix inverse of numpy
  and the draws of the random generator. A draw of \<open>np.random.normal(loc, scale)\<close> is
  \<open>loc + scale * g\<close> for a standard normal draw \<open>g\<close>, which can be any real number.
  \<open>uniform i j\<close> is the draw for the entry \<open>(i, j)\<close> of the true \<open>Theta\<close>,
  \<open>normal_x t k j\<close> the standard normal draw for coordinate \<open>j\<close> of the features of arm
  \<open>k\<close> in round \<open>t\<close>, and \<open>normal_r t d\<close> the one for the noise of objective \<open>d\<close>.
\<close>

record env =
  linalg_inv :: "mat \<Rightarrow> error + mat"
  uniform :: "nat \<Rightarrow> nat \<Rightarrow> real"
  normal_x :: "nat \<Rightarrow> nat \<Rightarrow> nat \<Rightarrow> real"
  normal_r :: "nat \<Rightarrow> nat \<Rightarrow> real"

text \<open>
  The variables of \<open>gaussian_test\<close> that live across rounds. An entry of \<open>GGI_list\<close>
  is \<open>None\<close> when the float stored there is inf or nan.
\<close>

record run_state =
  A :: mat
  B :: mat
  X :: "nat \<rightharpoonup> vec"
  Theta :: mat
  GGI_list :: "real option list"
  alpha :: vec
  r_ave :: vec

text \<open>
  \<^verbatim>\<open>
  A = self.lam * np.identity(self.M)
  B = np.zeros((self.M, self.D))
  X = {}
  Theta = np.random.uniform(0, 1, (self.M, self.D))
  GGI_list = [0] * self.T
  alpha = 1 / self.K * np.ones(self.K)
  r_ave = np.zeros(self.D)
  \<close>
  A negative dimension raises ValueError, and \<open>1 / self.K\<close> raises ZeroDivisionError
  for \<open>K = 0\<close>.
\<close>

definition gaussian_init :: "env \<Rightarrow> mocb \<Rightarrow> error + run_state" where
  "gaussian_init ev self =
     (if M self < 0 then Inl ValueError
      else if D self < 0 then Inl ValueError
      else if K self = 0 then Inl ZeroDivisionError
      else if K self < 0 then Inl ValueError
      else Inr \<lparr>A = scalar_mat (lam self) (identity (nat (M self))),
                B = zeros2 (nat (M self)) (nat (D self)),
                X = Map.empty,
                Theta = mat_of (nat (M self)) (nat (D self)) (uniform ev),
                GGI_list = replicate (nat (T self)) (Some 0),
                alpha = replicate (nat (K self)) (1 / real_of_int (K self) * 1),
                r_ave = replicate (nat (D self)) 0\<rparr>)"

text \<open>
  \<^verbatim>\<open>X[k] = np.random.normal(1/self.M, 1/self.M, self.M)\<close>: \<open>1/self.M\<close> raises
  ZeroDivisionError for \<open>M = 0\<close>.
\<close>

definition feature :: "env \<Rightarrow> mocb \<Rightarrow> nat \<Rightarrow> nat \<Rightarrow> error + vec" where
  "feature ev self t k =
     (if M self = 0 then Inl ZeroDivisionError
      else if M self < 0 then Inl ValueError
      else Inr (map (\<lambda>j. 1 / real_of_int (M self) + 1 / real_of_int (M self) * normal_x ev t k j)
                  [0..<nat (M self)]))"

fun draw_features :: "env \<Rightarrow> mocb \<Rightarrow> nat \<Rightarrow> nat list \<Rightarrow> (nat \<rightharpoonup> vec) \<Rightarrow> error + (nat \<rightharpoonup> vec)" where
  "draw_features ev self t [] xs = Inr xs"
| "draw_features ev self t (k # ks) xs =
     (case feature ev self t k of
        Inl e \<Rightarrow> Inl e
      | Inr x \<Rightarrow> draw_features ev self t ks (xs(k \<mapsto> x)))"

text \<open>
  \<^verbatim>\<open>np.array([np.random.normal(0, 0.1 * abs(mu[d])) for d in range(self.D)])\<close>
\<close>

definition draw_noise :: "env \<Rightarrow> mocb \<Rightarrow> nat \<Rightarrow> vec \<Rightarrow> error + vec" where
  "draw_noise ev self t mu =
     (if nat (D self) \<le> length mu
      then Inr (map (\<lambda>d. 0 + 1 / 10 * \<bar>mu ! d\<bar> * normal_r ev t d) [0..<nat (D self)])
      else Inl IndexError)"

text \<open>
  \<^verbatim>\<open>np.sort(r_ave / t).dot(self.w)\<close>. For \<open>t = 0\<close> every entry of \<open>r_ave / t\<close> is inf
  or nan, and so is the dot product; the division raises nothing.
\<close>

definition running_GGI :: "mocb \<Rightarrow> vec \<Rightarrow> nat \<Rightarrow> error + real option" where
  "running_GGI self ra t =
     (if length ra \<noteq> length (w self) then Inl ValueError
      else if t = 0 \<and> ra \<noteq> [] then Inr None
      else Inr (Some (inner (sort (map (\<lambda>a. a / real t) ra)) (w self))))"

text \<open>
  One round of the loop \<^verbatim>\<open>for t in range(self.T)\<close>:
  \<^verbatim>\<open>
  Theta_hat = np.linalg.inv(A).dot(B)
  for k in range(self.K):
      X[k] = np.random.normal(1/self.M, 1/self.M, self.M)
  alpha = self.mirror_descent(alpha, Theta_hat, X)
  k = np.argmax(alpha)
  mu = X[k].T.dot(Theta)
  r = mu + np.array([np.random.normal(0, 0.1 * abs(mu[d])) for d in range(self.D)])
  r_ave += r
  A += X[k].dot(X[k].T)
  B += X[k].reshape(self.M, 1).dot(r.reshape(1, self.D))
  GGI_list[t] = np.sort(r_ave / t).dot(self.w)
  \<close>
  \<open>X[k]\<close> is a one-dimensional array, so \<open>X[k].T\<close> is \<open>X[k]\<close> itself and
  \<open>X[k].dot(X[k].T)\<close> is a scalar.
\<close>

definition gaussian_round :: "env \<Rightarrow> mocb \<Rightarrow> nat \<Rightarrow> run_state \<Rightarrow> error + run_state" where
  "gaussian_round ev self t s =
     bind_err (linalg_inv ev (A s)) (\<lambda>ai.
     bind_err (mat_mul ai (B s)) (\<lambda>theta_hat.
     bind_err (draw_features ev self t [0..<nat (K self)] (X s)) (\<lambda>xs.
     bind_err (mirror_descent self (alpha s) theta_hat xs) (\<lambda>al.
     bind_err (argmax al) (\<lambda>k.
     case xs k of
       None \<Rightarrow> Inl KeyError
     | Some xk \<Rightarrow>
         bind_err (vec_mat xk (Theta s)) (\<lambda>mu.
         bind_err (draw_noise ev self t mu) (\<lambda>nz.
         bind_err (broadcast (+) mu nz) (\<lambda>r.
         bind_err (iadd (r_ave s) r) (\<lambda>ra.
         bind_err (vdot xk xk) (\<lambda>xx.
         bind_err (outer (nat (M self)) (nat (D self)) xk r) (\<lambda>xr.
         bind_err (mat_iadd (B s) xr) (\<lambda>b.
         bind_err (running_GGI self ra t) (\<lambda>g.
         if t < length (GGI_list s)
         then Inr (s\<lparr>A := mat_add_scalar (A s) xx, B := b, X := xs, alpha := al, r_ave := ra,
                     GGI_list := (GGI_list s)[t := g]\<rparr>)
         else Inl IndexError)))))))))))))"

fun gaussian_rounds :: "env \<Rightarrow> mocb \<Rightarrow> nat list \<Rightarrow> run_state \<Rightarrow> error + run_state" where
  "gaussian_rounds ev self [] s = Inr s"
| "gaussian_rounds ev self (t # ts) s =
     (case gaussian_round ev self t s of
        Inl e \<Rightarrow> Inl e
      | Inr s' \<Rightarrow> gaussian_rounds ev self ts s')"

text \<open>\<open>gaussian_test\<close> returns nothing; the model returns the variables after the loop.\<close>

definition gaussian_test :: "env \<Rightarrow> mocb \<Rightarrow> error + run_state" where
  "gaussian_test ev self =
     bind_err (gaussian_init ev self) (gaussian_rounds ev self [0..<nat (T self)])"

subsection \<open>The quantities the properties speak of\<close>

text \<open>
  \<open>Theta\<^sup>T \<cdot> x\<close> for an array \<open>Theta\<close> and a feature vector \<open>x\<close>: the vector of the
  rewards of one arm, one entry for each objective.
\<close>


definition arm_rewards :: "mat \<Rightarrow> vec \<Rightarrow> vec" where
  "arm_rewards th x = map (\<lambda>j. \<Sum>i<nrows th. entry th i j * x ! i) [0..<ncols th]"

text \<open>
  The aggregate vector \<open>\<Sum>\<^sub>k alpha[k] \<cdot> (Theta\<^sup>T \<cdot> X[k])\<close> over the arms \<open>k' < k\<close>.
\<close>

definition aggregate_spec :: "vec \<Rightarrow> mat \<Rightarrow> (nat \<rightharpoonup> vec) \<Rightarrow> nat \<Rightarrow> vec" where
  "aggregate_spec al th xs k =
     map (\<lambda>j. \<Sum>k'<k. al ! k' * arm_rewards th (the (xs k')) ! j) [0..<ncols th]"

text \<open>A family of feature vectors of length \<open>m\<close>, one for each arm below \<open>k\<close>.\<close>

definition features_ok :: "(nat \<rightharpoonup> vec) \<Rightarrow> nat \<Rightarrow> nat \<Rightarrow> bool" where
  "features_ok xs k m \<longleftrightarrow> (\<forall>k'<k. \<exists>x. xs k' = Some x \<and> length x = m)"


subsection \<open>An object with two arms and two objectives\<close>

text \<open>
  The object \<open>MOCB(2, 2, 1, 1, 1, 1, 1)\<close>, a \<open>1 \<times> 2\<close> array \<open>Theta\<close> and the
  features of two arms.
\<close>

definition ggi_mocb :: mocb where
  "ggi_mocb = \<lparr>K = 2, D = 2, M = 1, T = 1, lam = 1, eta = 1, I = 1, w = [1, 1 / 2]\<rparr>"

definition ggi_theta :: mat where
  "ggi_theta = \<lparr>nrows = 1, ncols = 2, rows = [[3, 1]]\<rparr>"

definition ggi_features :: "nat \<rightharpoonup> vec" where
  "ggi_features = [0 \<mapsto> [2], 1 \<mapsto> [4]]"

subsection \<open>Positive definiteness, and a run with two features\<close>








text \<open>
  A run that is computed in full below: one arm, one objective, two features and one
  round, \<open>MOCB(1, 1, 2, 1, 1, 1, 1)\<close>. The inverse is that of \<open>2 \<times> 2\<close> arrays, by the
  adjugate; every entry of the true \<open>Theta\<close> is drawn as \<open>1/2\<close>, the standard normal
  draws of the features are \<open>1\<close> and \<open>-1\<close>, which gives the feature vector \<open>[1, 0]\<close>,
  and the noise draws are \<open>0\<close>.
\<close>

definition inv2 :: "mat \<Rightarrow> error + mat" where
  "inv2 a =
     (if nrows a = 2 \<and> ncols a = 2 \<and> entry a 0 0 * entry a 1 1 - entry a 0 1 * entry a 1 0 \<noteq> 0
      then Inr (mat_of 2 2 (\<lambda>i j.
             (if i = j then entry a (1 - i) (1 - j) else - entry a i j)
               / (entry a 0 0 * entry a 1 1 - entry a 0 1 * entry a 1 0)))
      else Inl LinAlgError)"

definition example_env :: env where
  "example_env = \<lparr>linalg_inv = inv2, uniform = (\<lambda>i j. 1 / 2),
     normal_x = (\<lambda>t k j. if j = 0 then 1 else - 1), normal_r = (\<lambda>t d. 0)\<rparr>"

definition example_mocb :: mocb where
  "example_mocb = \<lparr>K = 1, D = 1, M = 2, T = 1, lam = 1, eta = 1, I = 1, w = [1]\<rparr>"

text \<open>
  The variables of this run before the loop and after its only round.
\<close>

definition ex_s0 :: run_state where
  "ex_s0 = \<lparr>A = \<lparr>nrows = 2, ncols = 2, rows = [[1, 0], [0, 1]]\<rparr>,
        B = \<lparr>nrows = 2, ncols = 1, rows = [[0], [0]]\<rparr>,
        X = Map.empty,
        Theta = \<lparr>nrows = 2, ncols = 1, rows = [[1/2], [1/2]]\<rparr>,
        GGI_list = [Some 0], alpha = [1], r_ave = [0]\<rparr>"

definition ex_s1 :: run_state where
  "ex_s1 = \<lparr>A = \<lparr>nrows = 2, ncols = 2, rows = [[2, 1], [1, 2]]\<rparr>,
        B = \<lparr>nrows = 2, ncols = 1, rows = [[1 / 2], [0]]\<rparr>,
        X = [0 \<mapsto> [1, 0]],
        Theta = \<lparr>nrows = 2, ncols = 1, rows = [[1 / 2], [1 / 2]]\<rparr>,
        GGI_list = [None], alpha = [1], r_ave = [1 / 2]\<rparr>"

section \<open>Properties\<close>

subsection \<open>The bisection loop\<close>

lemma loop_iters_le: "iters (bisection_loop n v z tau s) \<le> iters s + n"
proof (induction n arbitrary: s)
  case 0
  then show ?case by simp
next
  case (Suc n)
  let ?m = "(upper s + lower s) / 2"
  show ?case
    using Suc.IH [of "s\<lparr>midpoint := Some ?m, iters := Suc (iters s), upper := ?m\<rparr>"]
      Suc.IH [of "s\<lparr>midpoint := Some ?m, iters := Suc (iters s), lower := ?m\<rparr>"]
    by (simp add: Let_def)
qed

lemma loop_iters_ge: "iters s \<le> iters (bisection_loop n v z tau s)"
proof (induction n arbitrary: s)
  case 0
  then show ?case by simp
next
  case (Suc n)
  show ?case
    using Suc.IH [of "s\<lparr>midpoint := Some ((upper s + lower s) / 2), iters := Suc (iters s), upper := (upper s + lower s) / 2\<rparr>"]
      Suc.IH [of "s\<lparr>midpoint := Some ((upper s + lower s) / 2), iters := Suc (iters s), lower := (upper s + lower s) / 2\<rparr>"]
    by (auto simp: Let_def)
qed

lemma loop_midpoint_Some:
  "0 < n \<or> midpoint s \<noteq> None \<Longrightarrow> midpoint (bisection_loop n v z tau s) \<noteq> None"
proof (induction n arbitrary: s)
  case 0
  then show ?case by simp
next
  case (Suc n)
  let ?m = "(upper s + lower s) / 2"
  show ?case
    using Suc.IH [of "s\<lparr>midpoint := Some ?m, iters := Suc (iters s), upper := ?m\<rparr>"]
      Suc.IH [of "s\<lparr>midpoint := Some ?m, iters := Suc (iters s), lower := ?m\<rparr>"]
    by (simp add: Let_def del: not_None_eq)
qed

lemma loop_early_stop:
  "iters (bisection_loop n v z tau s) < iters s + n \<Longrightarrow>
   \<exists>m. midpoint (bisection_loop n v z tau s) = Some m \<and> \<bar>func v z m\<bar> \<le> tau"
proof (induction n arbitrary: s)
  case 0
  then show ?case by simp
next
  case (Suc n)
  let ?m = "(upper s + lower s) / 2"
  show ?case
  proof (cases "\<bar>func v z ?m\<bar> \<le> tau")
    case True
    then have "midpoint (bisection_loop (Suc n) v z tau s) = Some ?m"
      by (simp add: Let_def)
    with True show ?thesis by blast
  next
    case False
    then show ?thesis
      using Suc.IH [of "s\<lparr>midpoint := Some ?m, iters := Suc (iters s), upper := ?m\<rparr>"]
        Suc.IH [of "s\<lparr>midpoint := Some ?m, iters := Suc (iters s), lower := ?m\<rparr>"]
        Suc.prems
      by (auto simp: Let_def)
  qed
qed







lemma loop_iters_pos: "0 < n \<Longrightarrow> iters s < iters (bisection_loop n v z tau s)"
proof (cases n)
  case 0
  then show "0 < n \<Longrightarrow> ?thesis" by simp
next
  case (Suc n')
  let ?m = "(upper s + lower s) / 2"
  show ?thesis
    using loop_iters_ge [of "s\<lparr>midpoint := Some ?m, iters := Suc (iters s), upper := ?m\<rparr>" n' v z tau]
      loop_iters_ge [of "s\<lparr>midpoint := Some ?m, iters := Suc (iters s), lower := ?m\<rparr>" n' v z tau]
    unfolding Suc by (simp add: Let_def)
qed

lemma projection_returns:
  assumes "v \<noteq> []" and "0 < max_iter"
  shows "\<exists>m. midpoint (bisection_loop (nat max_iter) v z tau (bisection_init v z)) = Some m \<and>
     projection_simplex_bisection v z tau max_iter = Inr (map (\<lambda>a. max (a - m) 0) v)"
proof -
  have "midpoint (bisection_loop (nat max_iter) v z tau (bisection_init v z)) \<noteq> None"
    using assms(2) by (intro loop_midpoint_Some) simp
  then obtain m where "midpoint (bisection_loop (nat max_iter) v z tau (bisection_init v z)) = Some m"
    by blast
  then show ?thesis
    using assms(1) by (simp add: projection_simplex_bisection_def)
qed

lemma ex_loop:
  "bisection_loop (nat 1) [2, 0] 1 (1 / 2) (bisection_init [2, 0] 1)
     = \<lparr>lower = - (1 / 2), upper = 2, midpoint = Some (3 / 4), iters = 1\<rparr>"
proof -
  have "nat 1 = Suc 0" by simp
  then show ?thesis
    by (simp add: bisection_init_def func_def Let_def)
qed


subsection \<open>The projection onto the simplex (claims C3 and C4)\<close>




text \<open>
  Claim C4, as the code has it. For a non-empty vector and \<open>max_iter \<ge> 1\<close> the projection
  returns \<open>max(v - m, 0)\<close> for the last midpoint \<open>m\<close>, after at least one and at most
  \<open>max_iter\<close> iterations; it stops before the last iteration only when the tolerance test
  succeeded. The loop is a recursion on the number of iterations that remain, so it
  always ends.
\<close>

theorem projection_terminates:
  assumes "v \<noteq> []" and "0 < max_iter"
  shows "\<exists>m. midpoint (bisection_loop (nat max_iter) v z tau (bisection_init v z)) = Some m
     \<and> projection_simplex_bisection v z tau max_iter = Inr (map (\<lambda>a. max (a - m) 0) v)
     \<and> 0 < iters (bisection_loop (nat max_iter) v z tau (bisection_init v z))
     \<and> iters (bisection_loop (nat max_iter) v z tau (bisection_init v z)) \<le> nat max_iter
     \<and> (iters (bisection_loop (nat max_iter) v z tau (bisection_init v z)) < nat max_iter
          \<longrightarrow> \<bar>func v z m\<bar> \<le> tau)"
proof -
  let ?s = "bisection_loop (nat max_iter) v z tau (bisection_init v z)"
  from projection_returns [OF assms] obtain m where m: "midpoint ?s = Some m"
    and p: "projection_simplex_bisection v z tau max_iter = Inr (map (\<lambda>a. max (a - m) 0) v)"
    by blast
  have i0: "iters (bisection_init v z) = 0" by (simp add: bisection_init_def)
  have pos: "0 < iters ?s"
    using loop_iters_pos [of "nat max_iter" "bisection_init v z" v z tau] assms(2) by simp
  have le: "iters ?s \<le> nat max_iter"
    using loop_iters_le [of "nat max_iter" v z tau "bisection_init v z"] i0 by simp
  have tol: "\<bar>func v z m\<bar> \<le> tau" if "iters ?s < nat max_iter"
    using loop_early_stop [of "nat max_iter" v z tau "bisection_init v z"] that m i0 by simp
  show ?thesis using m p pos le tol by blast
qed

text \<open>
  The theorem at \<open>v = [2, 0]\<close>, \<open>z = 1\<close>, \<open>tau = 1/2\<close> and \<open>max_iter = 1\<close>.
\<close>

theorem projection_terminates_witness:
  "midpoint (bisection_loop (nat 1) [2, 0] 1 (1 / 2) (bisection_init [2, 0] 1)) = Some (3 / 4)
   \<and> projection_simplex_bisection [2, 0] 1 (1 / 2) 1 = Inr (map (\<lambda>a. max (a - 3 / 4) 0) [2, 0])
   \<and> iters (bisection_loop (nat 1) [2, 0] 1 (1 / 2) (bisection_init [2, 0] 1)) = 1"
proof -
  from projection_terminates [of "[2, 0]" 1 1 "1 / 2"]
  obtain m where "midpoint (bisection_loop (nat 1) [2, 0] 1 (1 / 2) (bisection_init [2, 0] 1)) = Some m"
    and "projection_simplex_bisection [2, 0] 1 (1 / 2) 1 = Inr (map (\<lambda>a. max (a - m) 0) [2, 0])"
    by auto
  then show ?thesis unfolding ex_loop by simp
qed

text \<open>
  Claim C4 as it is stated fails on two inputs: with \<open>max_iter = 0\<close> the loop body never
  runs and the \<open>return\<close> reads the unbound \<open>midpoint\<close>, and on the empty vector
  \<open>np.min\<close> raises ValueError.
\<close>

theorem projection_raises_counterexample:
  "projection_simplex_bisection [1] 1 (1 / 10 ^ 6) 0 = Inl UnboundLocalError
   \<and> projection_simplex_bisection [] 1 (1 / 10 ^ 6) 1000 = Inl ValueError"
  by (simp add: projection_simplex_bisection_def bisection_init_def)

subsection \<open>The constructor, the index and its gradient\<close>

lemma inner_nth: "length x = length y \<Longrightarrow> inner x y = (\<Sum>i<length x. x ! i * y ! i)"
proof -
  assume l: "length x = length y"
  have "inner x y = sum_list (map (\<lambda>i. x ! i * y ! i) [0..<length x])"
    unfolding inner_def using l
    by (intro arg_cong [where f = sum_list] nth_equalityI) auto
  also have "\<dots> = (\<Sum>i<length x. x ! i * y ! i)"
    by (simp add: interv_sum_list_conv_sum_set_nat atLeast0LessThan)
  finally show ?thesis .
qed

lemma inner_commute: "inner x y = inner y x"
proof -
  have "map (\<lambda>(a, b). a * b) (zip x y) = map (\<lambda>(a, b). a * b) (zip y x)"
    by (induction x arbitrary: y) (auto simp: zip_Cons1 split: list.splits)
  then show ?thesis by (simp add: inner_def)
qed

lemma mat_vec_transpose:
  assumes "has_shape th m d" and "length x = m"
  shows "mat_vec (transpose_mat th) x = Inr (arm_rewards th x)"
proof -
  have "inner (map (\<lambda>i. entry th i j) [0..<m]) x = (\<Sum>i<m. entry th i j * x ! i)" for j
    using assms(2) by (subst inner_nth) auto
  then show ?thesis
    using assms by (simp add: mat_vec_def transpose_mat_def mat_of_def arm_rewards_def has_shape_def)
qed

lemma length_arm_rewards [simp]: "length (arm_rewards th x) = ncols th"
  by (simp add: arm_rewards_def)

lemma aggregate_sum:
  assumes "has_shape th m d"
  shows "length x = d \<Longrightarrow> \<forall>k\<in>set ks. k < length al \<and> (\<exists>y. xs k = Some y \<and> length y = m) \<Longrightarrow>
     aggregate al th xs ks x =
       Inr (map (\<lambda>j. x ! j + (\<Sum>k\<leftarrow>ks. al ! k * arm_rewards th (the (xs k)) ! j)) [0..<d])"
proof (induction ks arbitrary: x)
  case Nil
  then show ?case using map_nth [of x] by simp
next
  case (Cons k ks)
  from Cons.prems(2) obtain y where y: "xs k = Some y" "length y = m" and k: "k < length al"
    by auto
  have d: "ncols th = d" using assms by (simp add: has_shape_def)
  let ?x' = "map2 (+) x (map (\<lambda>a. al ! k * a) (arm_rewards th y))"
  have step: "aggregate al th xs (k # ks) x = aggregate al th xs ks ?x'"
    using y k Cons.prems(1) d by (simp add: mat_vec_transpose [OF assms] iadd_def)
  have len: "length ?x' = d" using Cons.prems(1) d by simp
  have "aggregate al th xs ks ?x' =
     Inr (map (\<lambda>j. ?x' ! j + (\<Sum>k\<leftarrow>ks. al ! k * arm_rewards th (the (xs k)) ! j)) [0..<d])"
    using Cons.prems(2) by (intro Cons.IH len) auto
  also have "\<dots> = Inr (map (\<lambda>j. x ! j + (\<Sum>k\<leftarrow>k # ks. al ! k * arm_rewards th (the (xs k)) ! j)) [0..<d])"
    using Cons.prems(1) d y by (auto simp: algebra_simps)
  finally show ?case unfolding step .
qed

lemma aggregate_spec_eq:
  assumes "has_shape th m d" and "length al = k" and "features_ok xs k m"
  shows "aggregate al th xs [0..<k] (replicate d 0) = Inr (aggregate_spec al th xs k)"
proof -
  have "aggregate al th xs [0..<k] (replicate d 0) =
       Inr (map (\<lambda>j. replicate d 0 ! j + (\<Sum>k\<leftarrow>[0..<k]. al ! k * arm_rewards th (the (xs k)) ! j)) [0..<d])"
    using assms(2,3) by (intro aggregate_sum [OF assms(1)]) (auto simp: features_ok_def)
  also have "\<dots> = Inr (aggregate_spec al th xs k)"
    using assms(1)
    by (auto simp: aggregate_spec_def has_shape_def interv_sum_list_conv_sum_set_nat atLeast0LessThan)
  finally show ?thesis .
qed

lemma linspace_weights:
  "0 \<le> d \<Longrightarrow> linspace 0 (real_of_int (- d + 1)) d = Inr (map (\<lambda>j. - real j) [0..<nat d])"
proof -
  assume d: "0 \<le> d"
  show ?thesis
  proof (cases "d = 1")
    case True
    then show ?thesis by (simp add: linspace_def)
  next
    case False
    have "real j * (real_of_int (- d + 1) / real_of_int (d - 1)) = - real j" for j
    proof -
      define c where "c = real_of_int (d - 1)"
      have "real_of_int (- d + 1) = - c" by (simp add: c_def)
      moreover have "c \<noteq> 0" using False by (simp add: c_def)
      ultimately have "real_of_int (- d + 1) / c = - 1" by simp
      then show ?thesis unfolding c_def by simp
    qed
    then show ?thesis using d False by (simp add: linspace_def)
  qed
qed

lemma MOCB_init_eq:
  "MOCB_init k d m t l e i =
     (if d < 0 then Inl ValueError
      else Inr \<lparr>K = k, D = d, M = m, T = t, lam = l, eta = e, I = i,
                w = map (\<lambda>j. 1 / 2 ^ j) [0..<nat d]\<rparr>)"
proof (cases "d < 0")
  case True
  then show ?thesis by (simp add: MOCB_init_def linspace_def)
next
  case False
  have p: "2 powr (- real j) = 1 / 2 ^ j" for j
    by (simp add: powr_minus powr_realpow divide_inverse)
  have "linspace 0 (real_of_int (- d + 1)) d = Inr (map (\<lambda>j. - real j) [0..<nat d])"
    using False by (intro linspace_weights) simp
  then show ?thesis
    unfolding MOCB_init_def using False by (simp add: p comp_def)
qed

lemma MOCB_init_Inr:
  assumes "MOCB_init k d m t l e i = Inr self"
  shows "0 \<le> d" "K self = k" "D self = d" "M self = m" "T self = t" "lam self = l"
    "eta self = e" "I self = i" "w self = map (\<lambda>j. 1 / 2 ^ j) [0..<nat d]"
    "length (w self) = nat d"
  using assms unfolding MOCB_init_eq by (auto split: if_splits)

lemma GGI_value:
  assumes "0 \<le> D self" and "length (w self) = nat (D self)"
    and "K self = int (length al)"
    and "has_shape th m (nat (D self))" and "features_ok xs (length al) m"
  shows "GGI self al th xs = Inr (inner (w self) (sort (aggregate_spec al th xs (length al))))"
proof -
  have "length (aggregate_spec al th xs (length al)) = nat (D self)"
    using assms(4) by (simp add: aggregate_spec_def has_shape_def)
  then show ?thesis
    using assms(1,2,3)
    by (simp add: GGI_def zeros_def aggregate_spec_eq [OF assms(4) refl assms(5)] vdot_def
        inner_commute [of "w self"])
qed







lemma upt_2: "[0..<2] = [0, 1]"
  by (simp add: upt_rec)

lemma lessThan_2: "{..<2::nat} = {0, 1}"
  by auto

lemma ggi_init: "MOCB_init 2 2 1 1 1 1 1 = Inr ggi_mocb"
  by (simp add: MOCB_init_eq ggi_mocb_def upt_2)

lemma ggi_shape: "has_shape ggi_theta (nat 1) (nat 2)"
  by (simp add: has_shape_def wf_mat_def ggi_theta_def)

lemma ggi_features_ok: "features_ok ggi_features (length [1 / 2, 1 / 2 :: real]) (nat 1)"
  by (auto simp: features_ok_def ggi_features_def less_Suc_eq)

lemma ggi_arm:
  "arm_rewards ggi_theta [2] = [6, 2]" "arm_rewards ggi_theta [4] = [12, 4]"
  by (simp_all add: arm_rewards_def ggi_theta_def entry_def upt_2)

lemma ggi_aggregate: "aggregate_spec [1 / 2, 1 / 2] ggi_theta ggi_features 2 = [9, 3]"
proof -
  have "ncols ggi_theta = 2" by (simp add: ggi_theta_def)
  moreover have "the (ggi_features 0) = [2]" "the (ggi_features 1) = [4]"
    by (simp_all add: ggi_features_def)
  ultimately show ?thesis
    by (simp add: aggregate_spec_def lessThan_2 upt_2 ggi_arm)
qed

lemma ggi_length: "length [1 / 2, 1 / 2 :: real] = 2"
  by simp



subsection \<open>The index, its gradient and the constructor (claims C5, C6 and C9)\<close>

text \<open>
  Claim C5. On a constructed object, for \<open>alpha\<close> of length \<open>K\<close>, an \<open>M \<times> D\<close> array
  \<open>Theta\<close> and feature vectors of length \<open>M\<close> for the \<open>K\<close> arms, \<open>GGI\<close> returns
  \<open>w\<close> dotted with the ascending sort of \<open>\<Sum>\<^sub>k alpha[k] \<cdot> (Theta\<^sup>T \<cdot> X[k])\<close>.
\<close>

theorem GGI_weighted_sorted_aggregate:
  assumes "MOCB_init k d m t l e i = Inr self" and "k = int (length al)"
    and "has_shape th (nat m) (nat d)" and "features_ok xs (length al) (nat m)"
  shows "GGI self al th xs = Inr (inner (w self) (sort (aggregate_spec al th xs (length al))))"
  using assms MOCB_init_Inr [OF assms(1)]
  by (intro GGI_value [where m = "nat m"]) auto

text \<open>
  The theorem on two arms and two objectives: the aggregate is \<open>[9, 3]\<close>, and the index
  is \<open>1 \<cdot> 3 + 1/2 \<cdot> 9\<close>.
\<close>

theorem GGI_weighted_sorted_aggregate_witness:
  "MOCB_init 2 2 1 1 1 1 1 = Inr ggi_mocb \<and> has_shape ggi_theta (nat 1) (nat 2)
   \<and> features_ok ggi_features (length [1 / 2, 1 / 2 :: real]) (nat 1)
   \<and> GGI ggi_mocb [1 / 2, 1 / 2] ggi_theta ggi_features = Inr (15 / 2)"
proof -
  have "GGI ggi_mocb [1 / 2, 1 / 2] ggi_theta ggi_features
      = Inr (inner (w ggi_mocb) (sort (aggregate_spec [1 / 2, 1 / 2] ggi_theta ggi_features (length [1 / 2, 1 / 2 :: real]))))"
    by (rule GGI_weighted_sorted_aggregate [OF ggi_init _ ggi_shape ggi_features_ok]) simp
  also have "\<dots> = Inr (15 / 2)"
    unfolding ggi_length ggi_aggregate by (simp add: ggi_mocb_def inner_def)
  finally show ?thesis
    using ggi_init ggi_shape ggi_features_ok by simp
qed



text \<open>
  Claim C9, as the code has it. The constructor checks none of its parameters: it stores
  them as they are, with the weights \<open>w\<^sub>d = 2\<^sup>-\<^sup>d\<close>, and it fails only for a negative
  \<open>D\<close>, with the ValueError of \<open>np.linspace\<close>.
\<close>

theorem MOCB_init_checks_only_D:
  "MOCB_init k d m t l e i =
     (if d < 0 then Inl ValueError
      else Inr \<lparr>K = k, D = d, M = m, T = t, lam = l, eta = e, I = i,
                w = map (\<lambda>j. 1 / 2 ^ j) [0..<nat d]\<rparr>)"
  by (rule MOCB_init_eq)

text \<open>
  Claim C9 as it is stated fails: the constructor succeeds when all of \<open>K\<close>, \<open>D\<close>,
  \<open>M\<close>, \<open>T\<close>, \<open>lam\<close> and \<open>I\<close> are zero, and when all but \<open>D\<close> are negative.
\<close>

theorem MOCB_init_nonpositive_counterexample:
  "MOCB_init 0 0 0 0 0 1 0 = Inr \<lparr>K = 0, D = 0, M = 0, T = 0, lam = 0, eta = 1, I = 0, w = []\<rparr>
   \<and> MOCB_init (- 1) 5 (- 1) (- 1) (- 1) 1 (- 1) =
       Inr \<lparr>K = - 1, D = 5, M = - 1, T = - 1, lam = - 1, eta = 1, I = - 1,
            w = [1, 1 / 2, 1 / 4, 1 / 8, 1 / 16]\<rparr>"
proof -
  have "[0..<5] = [0, 1, 2, 3, 4]" by (simp add: upt_rec)
  then show ?thesis by (simp add: MOCB_init_eq)
qed

subsection \<open>The multiplicative-weights ascent (claims C7 and C10)\<close>





















subsection \<open>Arrays of the form \<open>l \<cdot> I + c \<cdot> J\<close>\<close>


lemma entry_mat_of [simp]: "i < m \<Longrightarrow> j < d \<Longrightarrow> entry (mat_of m d f) i j = f i j"
  by (simp add: entry_def mat_of_def)

lemma dims_mat_of [simp]: "nrows (mat_of m d f) = m" "ncols (mat_of m d f) = d"
  by (simp_all add: mat_of_def)

lemma row_mat_of [simp]: "i < m \<Longrightarrow> rows (mat_of m d f) ! i = map (f i) [0..<d]"
  by (simp add: mat_of_def)















subsection \<open>The rounds of the bandit loop\<close>















subsection \<open>The run with two features\<close>






lemma ginit_ex: "gaussian_init example_env example_mocb =
   Inr \<lparr>A = \<lparr>nrows = 2, ncols = 2, rows = [[1, 0], [0, 1]]\<rparr>,
        B = \<lparr>nrows = 2, ncols = 1, rows = [[0], [0]]\<rparr>,
        X = Map.empty,
        Theta = \<lparr>nrows = 2, ncols = 1, rows = [[1/2], [1/2]]\<rparr>,
        GGI_list = [Some 0], alpha = [1], r_ave = [0]\<rparr>"
  by (simp add: gaussian_init_def example_mocb_def example_env_def scalar_mat_def identity_def
      mat_of_def zeros2_def upt_2)

lemma grad_ex:
  "grad example_mocb [1] \<lparr>nrows = 2, ncols = 1, rows = [[0], [0]]\<rparr> [0 \<mapsto> [1, 0]] = Inr [0]"
  by (simp add: grad_def zeros_def example_mocb_def mat_vec_def transpose_mat_def mat_of_def
      entry_def upt_2 inner_def iadd_def argsort_def take_indices_def vdot_def)

lemma round_ex: "gaussian_round example_env example_mocb 0 ex_s0
   = Inr \<lparr>A = \<lparr>nrows = 2, ncols = 2, rows = [[2, 1], [1, 2]]\<rparr>,
        B = \<lparr>nrows = 2, ncols = 1, rows = [[1/2], [0]]\<rparr>,
        X = [0 \<mapsto> [1, 0]],
        Theta = \<lparr>nrows = 2, ncols = 1, rows = [[1/2], [1/2]]\<rparr>,
        GGI_list = [None], alpha = [1], r_ave = [1/2]\<rparr>"
proof -
  have sel: "K example_mocb = 1" "D example_mocb = 1" "M example_mocb = 2" "I example_mocb = 1"
    "eta example_mocb = 1" "w example_mocb = [1]"
    by (simp_all add: example_mocb_def)
  have st: "A ex_s0 = \<lparr>nrows = 2, ncols = 2, rows = [[1, 0], [0, 1]]\<rparr>"
    "B ex_s0 = \<lparr>nrows = 2, ncols = 1, rows = [[0], [0]]\<rparr>"
    "X ex_s0 = Map.empty" "Theta ex_s0 = \<lparr>nrows = 2, ncols = 1, rows = [[1/2], [1/2]]\<rparr>"
    "GGI_list ex_s0 = [Some 0]" "alpha ex_s0 = [1]" "r_ave ex_s0 = [0]"
    by (simp_all add: ex_s0_def)
  have s1: "linalg_inv example_env \<lparr>nrows = 2, ncols = 2, rows = [[1, 0], [0, 1]]\<rparr>
      = Inr \<lparr>nrows = 2, ncols = 2, rows = [[1, 0], [0, 1]]\<rparr>"
    by (simp add: example_env_def inv2_def entry_def mat_of_def upt_2)
  have s2: "mat_mul \<lparr>nrows = 2, ncols = 2, rows = [[1, 0], [0, 1]]\<rparr>
       \<lparr>nrows = 2, ncols = 1, rows = [[0], [0]]\<rparr> = Inr \<lparr>nrows = 2, ncols = 1, rows = [[0], [0]]\<rparr>"
    by (simp add: mat_mul_def mat_of_def transpose_mat_def entry_def upt_2 inner_def)
  have s3: "draw_features example_env example_mocb 0 [0..<nat 1] Map.empty = Inr [0 \<mapsto> [1, 0]]"
    by (simp add: feature_def sel example_env_def upt_2)
  have s4: "mirror_descent example_mocb [1] \<lparr>nrows = 2, ncols = 1, rows = [[0], [0]]\<rparr> [0 \<mapsto> [1, 0]] = Inr [1]"
    by (simp add: mirror_descent_def sel mirror_step_def grad_ex broadcast_def divide_by_sum_def del: One_nat_def)
  have s5: "argmax [1] = Inr 0"
    by (simp add: argmax_def)
  have s6: "vec_mat [1, 0] \<lparr>nrows = 2, ncols = 1, rows = [[1/2], [1/2]]\<rparr> = Inr [1/2]"
    by (simp add: vec_mat_def transpose_mat_def mat_of_def entry_def upt_2 inner_def)
  have s7: "draw_noise example_env example_mocb 0 [1/2] = Inr [0]"
    by (simp add: draw_noise_def sel example_env_def)
  have s8: "broadcast (+) [1/2] [0] = Inr [1/2]"
    by (simp add: broadcast_def)
  have s9: "iadd [0] [1/2] = Inr [1/2]"
    by (simp add: iadd_def)
  have s10: "vdot [1, 0] [1, 0] = Inr 1"
    by (simp add: vdot_def inner_def)
  have s11: "outer (nat 2) (nat 1) [1, 0] [1/2] = Inr \<lparr>nrows = 2, ncols = 1, rows = [[1/2], [0]]\<rparr>"
    by (simp add: outer_def mat_of_def upt_2)
  have s12: "mat_iadd \<lparr>nrows = 2, ncols = 1, rows = [[0], [0]]\<rparr>
       \<lparr>nrows = 2, ncols = 1, rows = [[1/2], [0]]\<rparr> = Inr \<lparr>nrows = 2, ncols = 1, rows = [[1/2], [0]]\<rparr>"
    by (simp add: mat_iadd_def)
  have s13: "running_GGI example_mocb [1/2] 0 = Inr None"
    by (simp add: running_GGI_def sel)
  have s14: "mat_add_scalar \<lparr>nrows = 2, ncols = 2, rows = [[1, 0], [0, 1]]\<rparr> 1
      = \<lparr>nrows = 2, ncols = 2, rows = [[2, 1], [1, 2]]\<rparr>"
    by (simp add: mat_add_scalar_def)
  have s15: "[0 \<mapsto> [1, 0::real]] 0 = Some [1, 0]" "(0::nat) < length [Some (0::real)]"
     "[Some (0::real)][0 := None] = [None]"
    by simp_all
  show ?thesis
    unfolding gaussian_round_def st sel s1 bind_err.simps s2 s3 s4 s5 s15 option.case s6 s7 s8 s9
      s10 s11 s12 s13 s14 if_True
    by (simp add: ex_s0_def)
qed

lemma test_ex: "gaussian_test example_env example_mocb =
    Inr \<lparr>A = \<lparr>nrows = 2, ncols = 2, rows = [[2, 1], [1, 2]]\<rparr>,
        B = \<lparr>nrows = 2, ncols = 1, rows = [[1/2], [0]]\<rparr>,
        X = [0 \<mapsto> [1, 0]],
        Theta = \<lparr>nrows = 2, ncols = 1, rows = [[1/2], [1/2]]\<rparr>,
        GGI_list = [None], alpha = [1], r_ave = [1/2]\<rparr>"
proof -
  have "gaussian_init example_env example_mocb = Inr ex_s0"
    unfolding ginit_ex ex_s0_def ..
  moreover have "[0..<nat (T example_mocb)] = [0]"
    by (simp add: example_mocb_def)
  ultimately show ?thesis
    by (simp add: gaussian_test_def round_ex)
qed

lemma test_ex_s1: "gaussian_test example_env example_mocb = Inr ex_s1"
  unfolding test_ex ex_s1_def ..




subsection \<open>The covariance accumulator and the running metric (claims C8, C1 and C2)\<close>



text \<open>
  Claim C1 at \<open>T = 1\<close>, \<open>lam = 1\<close> and the chosen feature vector \<open>x = [1, 0]\<close>. The
  program adds the scalar \<open>x \<cdot> x = 1\<close> to every entry of \<open>A\<close>, which gives
  \<open>[[2, 1], [1, 2]]\<close>, where \<open>lam \<cdot> I + x \<cdot> x\<^sup>T\<close> is \<open>[[2, 0], [0, 1]]\<close>. The
  update of \<open>B\<close> is the outer product of \<open>x\<close> and the reward \<open>[1/2]\<close>, as claimed.
\<close>

theorem covariance_update_adds_scalar:
  "gaussian_test example_env example_mocb = Inr ex_s1
   \<and> X ex_s1 0 = Some [1, 0]
   \<and> A ex_s1 = \<lparr>nrows = 2, ncols = 2, rows = [[2, 1], [1, 2]]\<rparr>
   \<and> bind_err (outer 2 2 [1, 0] [1, 0]) (mat_iadd (scalar_mat (lam example_mocb) (identity 2)))
       = Inr \<lparr>nrows = 2, ncols = 2, rows = [[2, 0], [0, 1]]\<rparr>
   \<and> B ex_s1 = \<lparr>nrows = 2, ncols = 1, rows = [[1 / 2], [0]]\<rparr>
   \<and> bind_err (outer 2 1 [1, 0] [1 / 2]) (mat_iadd (zeros2 2 1))
       = Inr \<lparr>nrows = 2, ncols = 1, rows = [[1 / 2], [0]]\<rparr>"
proof -
  have "bind_err (outer 2 2 [1, 0] [1, 0]) (mat_iadd (scalar_mat (lam example_mocb) (identity 2)))
       = Inr \<lparr>nrows = 2, ncols = 2, rows = [[2, 0], [0, 1]]\<rparr>"
    by (simp add: outer_def mat_iadd_def scalar_mat_def identity_def mat_of_def upt_2 example_mocb_def)
  moreover have "bind_err (outer 2 1 [1, 0] [1 / 2]) (mat_iadd (zeros2 2 1))
       = Inr \<lparr>nrows = 2, ncols = 1, rows = [[1 / 2], [0]]\<rparr>"
    by (simp add: outer_def mat_iadd_def zeros2_def mat_of_def upt_2)
  ultimately show ?thesis
    using test_ex_s1 by (simp add: ex_s1_def)
qed

text \<open>
  Claim C2 on the same run. Round \<open>t = 0\<close> is not skipped: the metric of that round
  divides the accumulated reward \<open>[1/2]\<close> by \<open>t = 0\<close>, and the entry of \<open>GGI_list\<close>
  that it stores is no real number.
\<close>

theorem running_GGI_divides_by_round_zero:
  "gaussian_test example_env example_mocb = Inr ex_s1
   \<and> r_ave ex_s1 = [1 / 2]
   \<and> running_GGI example_mocb [1 / 2] 0 = Inr None
   \<and> GGI_list ex_s1 = [None]"
  using test_ex_s1 by (simp add: ex_s1_def running_GGI_def example_mocb_def)

end
